theory Spec2Isabelle
  imports Main "HOL-Library.AList"
begin

section \<open>Strings and paths\<close>

text \<open>
  Python \<open>str\<close> values are modelled as \<^typ>\<open>string\<close>; every \<^typ>\<open>char\<close> stands for one
  code point below 256.  A path is the list of its components below the root, so
  \<open>Path(a) / "b"\<close> and \<open>os.path.join(a, "b")\<close> are both \<open>a @ [''b'']\<close>; \<open>path_str\<close>
  renders the absolute path as Python's \<open>str(path)\<close> does.
\<close>

type_synonym path = "string list"

fun join :: "string \<Rightarrow> string list \<Rightarrow> string" where
  "join sep [] = []"
| "join sep [x] = x"
| "join sep (x # y # ys) = x @ sep @ join sep (y # ys)"

definition path_str :: "path \<Rightarrow> string" where
  "path_str p = (if p = [] then ''/'' else concat (map (\<lambda>c. CHR ''/'' # c) p))"

definition digit_char :: "nat \<Rightarrow> char" where
  "digit_char d = char_of (48 + d)"

fun str_nat :: "nat \<Rightarrow> string" where
  "str_nat n = (if n < 10 then [digit_char n] else str_nat (n div 10) @ [digit_char (n mod 10)])"

declare str_nat.simps [simp del]

definition str_int :: "int \<Rightarrow> string" where
  "str_int i = (if i < 0 then CHR ''-'' # str_nat (nat (- i)) else str_nat (nat i))"


section \<open>Text processing\<close>

subsection \<open>Character classes\<close>

text \<open>
  Python's classes on the code points below 256: \<open>str.isspace\<close> (which is also what \<open>\s\<close>
  matches in a \<open>str\<close> pattern), the decimal digits \<open>\d\<close> matches, and \<open>str.isdigit\<close>, which
  also accepts the superscripts one, two and three.
\<close>

definition py_isspace :: "char \<Rightarrow> bool" where
  "py_isspace c = (let n = (of_char c :: nat)
                   in (9 \<le> n \<and> n \<le> 13) \<or> (28 \<le> n \<and> n \<le> 32) \<or> n = 133 \<or> n = 160)"

definition re_digit :: "char \<Rightarrow> bool" where
  "re_digit c = (let n = (of_char c :: nat) in 48 \<le> n \<and> n \<le> 57)"

definition py_isdigit :: "char \<Rightarrow> bool" where
  "py_isdigit c = (let n = (of_char c :: nat)
                   in (48 \<le> n \<and> n \<le> 57) \<or> n = 178 \<or> n = 179 \<or> n = 185)"

text \<open>\<open>s.isdigit()\<close>: the string is not empty and every character is a digit.\<close>

definition str_isdigit :: "string \<Rightarrow> bool" where
  "str_isdigit s = (s \<noteq> [] \<and> list_all py_isdigit s)"

definition py_strip :: "string \<Rightarrow> string" where
  "py_strip s = rev (dropWhile py_isspace (rev (dropWhile py_isspace s)))"

text \<open>
  \<open>int(s)\<close> for a string: surrounding white space is dropped, one sign is allowed, and
  the rest are decimal digits, possibly grouped by single underscores.
\<close>

definition digits_value :: "string \<Rightarrow> int" where
  "digits_value ds = foldl (\<lambda>a c. 10 * a + (int (of_char c) - 48)) 0 ds"

fun underscores_ok :: "string \<Rightarrow> bool" where
  "underscores_ok [] = True"
| "underscores_ok [c] = (c \<noteq> CHR ''_'')"
| "underscores_ok (c # d # cs) = ((c \<noteq> CHR ''_'' \<or> d \<noteq> CHR ''_'') \<and> underscores_ok (d # cs))"

definition py_int :: "string \<Rightarrow> int option" where
  "py_int s =
     (let t = py_strip s;
          negative = (t \<noteq> [] \<and> hd t = CHR ''-'');
          body = (if t \<noteq> [] \<and> (hd t = CHR ''-'' \<or> hd t = CHR ''+'') then tl t else t)
      in if body \<noteq> [] \<and> hd body \<noteq> CHR ''_'' \<and> underscores_ok body
            \<and> list_all (\<lambda>c. re_digit c \<or> c = CHR ''_'') body
         then Some ((if negative then - 1 else 1) * digits_value (filter re_digit body))
         else None)"

subsection \<open>Regular expressions\<close>

text \<open>
  A matcher tells, for the text at the current position, whether the pattern matches
  there, and then gives the captured digits and the length of the match.  \<open>re_sub\<close> is
  \<open>re.sub(pattern, repl, text)\<close> and \<open>re_findall\<close> lists the digits of the matches
  \<open>re.finditer\<close> would visit: both scan from the left, and after a match go on behind it.
\<close>

type_synonym matcher = "string \<Rightarrow> (string \<times> nat) option"

fun re_sub :: "matcher \<Rightarrow> string \<Rightarrow> string \<Rightarrow> string" where
  "re_sub m repl [] = []"
| "re_sub m repl (c # cs) =
     (case m (c # cs) of
        Some (g, n) \<Rightarrow> repl @ re_sub m repl (drop (n - 1) cs)
      | None \<Rightarrow> c # re_sub m repl cs)"





section \<open>The file system\<close>

text \<open>
  The part of the POSIX file system the manager looks at: a table from canonical paths to
  nodes, in directory order.  A symbolic link holds an absolute target.  \<open>resolve\<close> walks
  a path the way the kernel does, following links (at most 40 of them, after which the
  kernel answers \<open>ELOOP\<close>); its result is the canonical location the path names, which
  may be vacant when only the last component is missing.  Permissions are not modelled.
\<close>

datatype node = File string | Dir | Link path

type_synonym filesystem = "(path \<times> node) list"

fun resolve :: "nat \<Rightarrow> (path \<rightharpoonup> node) \<Rightarrow> path \<Rightarrow> path \<Rightarrow> path option" where
  "resolve n m cur [] = Some cur"
| "resolve n m cur (c # rest) =
     (case m (cur @ [c]) of
        None \<Rightarrow> (if rest = [] then Some (cur @ [c]) else None)
      | Some (File _) \<Rightarrow> (if rest = [] then Some (cur @ [c]) else None)
      | Some Dir \<Rightarrow> resolve n m (cur @ [c]) rest
      | Some (Link t) \<Rightarrow> (case n of 0 \<Rightarrow> None | Suc k \<Rightarrow> resolve k m [] (t @ rest)))"

definition canonical :: "filesystem \<Rightarrow> path \<Rightarrow> path option" where
  "canonical f p = resolve 40 (map_of f) [] p"

definition stat :: "filesystem \<Rightarrow> path \<Rightarrow> node option" where
  "stat f p = (case canonical f p of
                 None \<Rightarrow> None
               | Some q \<Rightarrow> (if q = [] then Some Dir else map_of f q))"

definition path_exists :: "filesystem \<Rightarrow> path \<Rightarrow> bool" where
  "path_exists f p = (stat f p \<noteq> None)"

definition is_dir :: "filesystem \<Rightarrow> path \<Rightarrow> bool" where
  "is_dir f p = (stat f p = Some Dir)"


text \<open>
  The location a path names when its last component is not followed (\<open>lstat\<close>): the parent
  must resolve to a directory.
\<close>

definition lcanonical :: "filesystem \<Rightarrow> path \<Rightarrow> path option" where
  "lcanonical f p =
     (if p = [] then Some []
      else case canonical f (butlast p) of
             None \<Rightarrow> None
           | Some d \<Rightarrow> (if d = [] \<or> map_of f d = Some Dir then Some (d @ [last p]) else None))"

definition lstat :: "filesystem \<Rightarrow> path \<Rightarrow> node option" where
  "lstat f p = (case lcanonical f p of
                  None \<Rightarrow> None
                | Some q \<Rightarrow> (if q = [] then Some Dir else map_of f q))"

definition is_symlink :: "filesystem \<Rightarrow> path \<Rightarrow> bool" where
  "is_symlink f p = (case lstat f p of Some (Link t) \<Rightarrow> True | _ \<Rightarrow> False)"
section \<open>Exceptions, external processes and the manager's world\<close>

text \<open>
  A Python exception is a value: its class and the text \<open>str(e)\<close> gives.  Every model
  function that can raise returns \<open>Inl\<close> of the exception beside the world reached so far.
\<close>

datatype exn_kind =
    FileNotFoundError | FileExistsError | NotADirectoryError | IsADirectoryError
  | ValueError | ProcessLookupError | CalledProcessError | OSError

datatype exn = Exn exn_kind string

definition exn_str :: "exn \<Rightarrow> string" where
  "exn_str e = (case e of Exn _ msg \<Rightarrow> msg)"

definition py_repr :: "string \<Rightarrow> string" where
  "py_repr s = [CHR 0x27] @ s @ [CHR 0x27]"

text \<open>
  What \<open>subprocess.run\<close> can come back with: the child could not be started, or it ran to
  an exit status with its output (\<open>stdout\<close> already cut by \<open>splitlines()\<close>).
\<close>

datatype proc_outcome = SpawnFailed exn | Completed int "string list" string

datatype dialog = Information | Warning | Critical

datatype callback = StartService string

text \<open>
  The world is the manager object together with everything it can see or touch:
  \<^item> \<open>home\<close> is what \<open>~\<close> expands to, \<open>fs\<close> the file system, \<open>applog\<close> the content of
    \<open>webstack_manager.log\<close> (\<open>None\<close> while the file does not exist; it is kept apart from
    \<open>fs\<close> because no other path of the stack names it), \<open>environ\<close> is \<open>os.environ\<close>,
    \<open>now\<close> the formatted wall-clock time;
  \<^item> \<open>run_oracle\<close>, \<open>popen_oracle\<close> and \<open>kill_oracle\<close> are the answers of the operating
    system to \<open>subprocess.run\<close>, \<open>subprocess.Popen\<close> and \<open>os.kill\<close>;
  \<^item> \<open>commands\<close>, \<open>spawned\<close>, \<open>signals\<close>, \<open>dialogs\<close> and \<open>timers\<close> record, in order, the
    commands run, the daemons launched, the pids sent \<open>SIGTERM\<close>, the message boxes shown
    and the \<open>QTimer.singleShot\<close> requests (due time in milliseconds and callback);
  \<^item> \<open>clock\<close> is the event loop's time in milliseconds and \<open>calls\<close> a history variable
    holding the \<open>start_service\<close> invocations with the time of each;
  \<^item> \<open>mysql_port\<close> is the spin box of that name (\<open>None\<close> while the attribute does not
    exist), \<open>auto_load_env\<close> the check box, \<open>php_version_combo\<close> the items of the
    version selector.
\<close>

record world =
  home :: path
  fs :: filesystem
  applog :: "string option"
  environ :: "string \<rightharpoonup> string"
  now :: string
  run_oracle :: "string list \<Rightarrow> proc_outcome"
  popen_oracle :: "string list \<Rightarrow> exn option"
  kill_oracle :: "int \<Rightarrow> exn option"
  commands :: "string list list"
  spawned :: "string list list"
  signals :: "int list"
  dialogs :: "(dialog \<times> string \<times> string) list"
  timers :: "(nat \<times> callback) list"
  clock :: nat
  calls :: "(nat \<times> string) list"
  mysql_port :: "int option"
  auto_load_env :: bool
  php_version_combo :: "string list"

definition stack_dir :: "world \<Rightarrow> path" where
  "stack_dir w = home w @ [''webstack'']"

definition deps_dir :: "world \<Rightarrow> path" where
  "deps_dir w = stack_dir w @ [''deps'']"

definition os_error :: "exn_kind \<Rightarrow> path \<Rightarrow> exn" where
  "os_error k p =
     Exn k ((case k of
               FileNotFoundError \<Rightarrow> ''[Errno 2] No such file or directory: ''
             | FileExistsError \<Rightarrow> ''[Errno 17] File exists: ''
             | NotADirectoryError \<Rightarrow> ''[Errno 20] Not a directory: ''
             | IsADirectoryError \<Rightarrow> ''[Errno 21] Is a directory: ''
             | _ \<Rightarrow> ''[Errno 5] Input/output error: '') @ py_repr (path_str p))"

subsection \<open>\<open>log_message\<close>\<close>

definition log_entry :: "string \<Rightarrow> string \<Rightarrow> string" where
  "log_entry timestamp message = ''['' @ timestamp @ ''] '' @ message @ [CHR 0x0A]"

text \<open>
  \<open>open(log_file, 'a')\<close> creates the file when it is missing, and raises when the stack
  root is not a directory.
\<close>

definition log_message :: "string \<Rightarrow> world \<Rightarrow> (exn + unit) \<times> world" where
  "log_message message w =
     (let log_file = stack_dir w @ [''webstack_manager.log''] in
      if is_dir (fs w) (stack_dir w)
      then (Inr (), w\<lparr>applog := Some ((case applog w of None \<Rightarrow> [] | Some old \<Rightarrow> old)
                                        @ log_entry (now w) message)\<rparr>)
      else if path_exists (fs w) (stack_dir w)
      then (Inl (os_error NotADirectoryError log_file), w)
      else (Inl (os_error FileNotFoundError log_file), w))"


section \<open>File operations\<close>

text \<open>
  The operations return the new file system or the exception Python raises.  A path that
  does not resolve is reported as \<open>FileNotFoundError\<close> (the kernel distinguishes a missing
  component from a component that is not a directory and from a link loop; no caller
  here does).
\<close>

definition read_text :: "filesystem \<Rightarrow> path \<Rightarrow> exn + string" where
  "read_text f p =
     (case stat f p of
        None \<Rightarrow> Inl (os_error FileNotFoundError p)
      | Some (File content) \<Rightarrow> Inr content
      | Some _ \<Rightarrow> Inl (os_error IsADirectoryError p))"





definition unlink :: "filesystem \<Rightarrow> path \<Rightarrow> exn + filesystem" where
  "unlink f p =
     (case lcanonical f p of
        None \<Rightarrow> Inl (os_error FileNotFoundError p)
      | Some q \<Rightarrow>
          (if q = [] then Inl (os_error IsADirectoryError p)
           else case map_of f q of
                  None \<Rightarrow> Inl (os_error FileNotFoundError p)
                | Some Dir \<Rightarrow> Inl (os_error IsADirectoryError p)
                | Some _ \<Rightarrow> Inr (AList.delete q f)))"

definition symlink_to :: "filesystem \<Rightarrow> path \<Rightarrow> path \<Rightarrow> exn + filesystem" where
  "symlink_to f p target =
     (case lcanonical f p of
        None \<Rightarrow> Inl (os_error FileNotFoundError p)
      | Some q \<Rightarrow>
          (if q = [] \<or> map_of f q \<noteq> None then Inl (os_error FileExistsError p)
           else Inr (f @ [(q, Link target)])))"

text \<open>\<open>shutil.rmtree\<close> refuses a symbolic link and removes a directory with all below it.\<close>

definition rmtree :: "filesystem \<Rightarrow> path \<Rightarrow> exn + filesystem" where
  "rmtree f p =
     (case lcanonical f p of
        None \<Rightarrow> Inl (os_error FileNotFoundError p)
      | Some q \<Rightarrow>
          (case (if q = [] then Some Dir else map_of f q) of
             None \<Rightarrow> Inl (os_error FileNotFoundError p)
           | Some (Link t) \<Rightarrow> Inl (Exn OSError ''Cannot call rmtree on a symbolic link'')
           | Some (File c) \<Rightarrow> Inl (os_error NotADirectoryError p)
           | Some Dir \<Rightarrow> Inr (filter (\<lambda>(k, nd). take (length q) k \<noteq> q) f)))"

text \<open>\<open>Path.iterdir\<close>: the entry names of a directory, in directory order.\<close>

definition iterdir :: "filesystem \<Rightarrow> path \<Rightarrow> exn + string list" where
  "iterdir f p =
     (case stat f p of
        None \<Rightarrow> Inl (os_error FileNotFoundError p)
      | Some Dir \<Rightarrow>
          (case canonical f p of
             None \<Rightarrow> Inl (os_error FileNotFoundError p)
           | Some q \<Rightarrow> Inr (map last (filter (\<lambda>k. k \<noteq> [] \<and> butlast k = q) (remdups (map fst f)))))
      | Some _ \<Rightarrow> Inl (os_error NotADirectoryError p))"

section \<open>Actions on the world\<close>

type_synonym 'a action = "world \<Rightarrow> (exn + 'a) \<times> world"

text \<open>Sequencing stops at the first exception; \<open>try_except\<close> is \<open>except Exception as e\<close>.\<close>

definition and_then :: "'a action \<Rightarrow> ('a \<Rightarrow> 'b action) \<Rightarrow> 'b action" where
  "and_then a k w = (case a w of (Inl e, w1) \<Rightarrow> (Inl e, w1) | (Inr x, w1) \<Rightarrow> k x w1)"

definition try_except :: "'a action \<Rightarrow> (exn \<Rightarrow> 'a action) \<Rightarrow> 'a action" where
  "try_except a h w = (case a w of (Inl e, w1) \<Rightarrow> h e w1 | (Inr x, w1) \<Rightarrow> (Inr x, w1))"

definition on_fs :: "(filesystem \<Rightarrow> exn + filesystem) \<Rightarrow> unit action" where
  "on_fs op w = (case op (fs w) of Inl e \<Rightarrow> (Inl e, w) | Inr f1 \<Rightarrow> (Inr (), w\<lparr>fs := f1\<rparr>))"

definition message_box :: "dialog \<Rightarrow> string \<Rightarrow> string \<Rightarrow> unit action" where
  "message_box kind title msg w = (Inr (), w\<lparr>dialogs := dialogs w @ [(kind, title, msg)]\<rparr>)"

definition single_shot :: "nat \<Rightarrow> callback \<Rightarrow> unit action" where
  "single_shot msec cb w = (Inr (), w\<lparr>timers := timers w @ [(clock w + msec, cb)]\<rparr>)"

text \<open>\<open>subprocess.run\<close> without \<open>check\<close>: the command is recorded and the outcome returned.\<close>

definition subprocess_run :: "string list \<Rightarrow> (int \<times> string list \<times> string) action" where
  "subprocess_run argv w =
     (case run_oracle w argv of
        SpawnFailed e \<Rightarrow> (Inl e, w\<lparr>commands := commands w @ [argv]\<rparr>)
      | Completed rc out err \<Rightarrow> (Inr (rc, out, err), w\<lparr>commands := commands w @ [argv]\<rparr>))"

definition popen :: "string list \<Rightarrow> unit action" where
  "popen argv w =
     (case popen_oracle w argv of
        Some e \<Rightarrow> (Inl e, w)
      | None \<Rightarrow> (Inr (), w\<lparr>spawned := spawned w @ [argv]\<rparr>))"

definition os_kill :: "int \<Rightarrow> unit action" where
  "os_kill pid w =
     (case kill_oracle w pid of
        Some e \<Rightarrow> (Inl e, w\<lparr>signals := signals w @ [pid]\<rparr>)
      | None \<Rightarrow> (Inr (), w\<lparr>signals := signals w @ [pid]\<rparr>))"
section \<open>Environment resolver\<close>

definition get_fallback_environment :: "world \<Rightarrow> (string \<rightharpoonup> string)" where
  "get_fallback_environment w =
     (let env = environ w;
          lib_paths = [deps_dir w @ [''lib''], deps_dir w @ [''lib64''],
                       [''usr'', ''lib''], [''usr'', ''lib64''], [''lib''], [''lib64'']];
          existing_lib_paths = filter (path_exists (fs w)) lib_paths;
          ld_library_path = join '':'' (map path_str existing_lib_paths);
          env = (case env ''LD_LIBRARY_PATH'' of
                   Some old \<Rightarrow> env(''LD_LIBRARY_PATH'' \<mapsto> ld_library_path @ '':'' @ old)
                 | None \<Rightarrow> env(''LD_LIBRARY_PATH'' \<mapsto> ld_library_path));
          bin_paths = [deps_dir w @ [''bin''], stack_dir w @ [''bin''],
                       [''usr'', ''bin''], [''bin'']];
          existing_bin_paths = filter (path_exists (fs w)) bin_paths;
          path = join '':'' (map path_str existing_bin_paths);
          env = (case env ''PATH'' of
                   Some old \<Rightarrow> env(''PATH'' \<mapsto> path @ '':'' @ old)
                 | None \<Rightarrow> env(''PATH'' \<mapsto> path));
          env = env(''WEBSTACK_HOME'' \<mapsto> path_str (stack_dir w));
          env = env(''PKG_CONFIG_PATH'' \<mapsto> path_str (deps_dir w @ [''lib'', ''pkgconfig'']))
      in env)"

text \<open>\<open>key, value = line.split('=', 1)\<close> for a line that contains \<open>=\<close>.\<close>

definition split_env_line :: "string \<Rightarrow> (string \<times> string) option" where
  "split_env_line line =
     (if CHR ''='' \<in> set line
      then Some (takeWhile (\<lambda>c. c \<noteq> CHR ''='') line, tl (dropWhile (\<lambda>c. c \<noteq> CHR ''='') line))
      else None)"

fun overlay_env :: "string list \<Rightarrow> (string \<rightharpoonup> string) \<Rightarrow> (string \<rightharpoonup> string)" where
  "overlay_env [] env = env"
| "overlay_env (line # lines) env =
     overlay_env lines (case split_env_line line of
                          None \<Rightarrow> env
                        | Some (key, v) \<Rightarrow> env(key \<mapsto> v))"

definition list_repr :: "string list \<Rightarrow> string" where
  "list_repr xs = ''['' @ join '', '' (map py_repr xs) @ '']''"

definition called_process_error :: "string list \<Rightarrow> int \<Rightarrow> exn" where
  "called_process_error argv rc =
     Exn CalledProcessError
       (''Command '' @ py_repr (list_repr argv) @
        (if 0 \<le> rc then '' returned non-zero exit status '' @ str_int rc @ ''.''
         else '' died with signal '' @ str_int (- rc) @ ''.''))"

definition bash_env_argv :: "world \<Rightarrow> string list" where
  "bash_env_argv w =
     [''bash'', ''-c'', ''source '' @ path_str (stack_dir w @ [''env.sh'']) @ '' && env'']"

definition get_environment :: "(string \<rightharpoonup> string) action" where
  "get_environment w =
     (let env = environ w;
          env_sh_path = stack_dir w @ [''env.sh'']
      in if path_exists (fs w) env_sh_path
         then (case subprocess_run (bash_env_argv w) w of
                 (Inl e, w1) \<Rightarrow> (Inl e, w1)
               | (Inr (rc, out, err), w1) \<Rightarrow>
                   if rc = 0
                   then and_then (log_message ''Environment loaded from env.sh'')
                          (\<lambda>_ w2. (Inr (overlay_env out env), w2)) w1
                   else and_then (log_message (''Error sourcing env.sh: ''
                                    @ exn_str (called_process_error (bash_env_argv w) rc)))
                          (\<lambda>_ w2. (Inr (get_fallback_environment w2), w2)) w1)
         else and_then (log_message ''env.sh not found, using fallback environment'')
                (\<lambda>_ w1. (Inr (get_fallback_environment w1), w1)) w)"

text \<open>
  The search-path rule in the specification's words: keep the candidates that exist, the
  private ones before the system ones, each group in its own order; join them with the
  path separator; put the result in front of the inherited value when there is one.
\<close>

definition spec_search_path :: "world \<Rightarrow> path list \<Rightarrow> path list \<Rightarrow> string option \<Rightarrow> string" where
  "spec_search_path w private system inherited =
     (let survivors = filter (path_exists (fs w)) private @ filter (path_exists (fs w)) system;
          joined = join '':'' (map path_str survivors)
      in case inherited of None \<Rightarrow> joined | Some old \<Rightarrow> joined @ '':'' @ old)"

section \<open>Configuration mutator\<close>


definition nginx_conf :: "world \<Rightarrow> path" where
  "nginx_conf w = stack_dir w @ [''nginx'', ''conf'', ''nginx.conf'']"




definition mysql_dir :: "world \<Rightarrow> path" where
  "mysql_dir w = stack_dir w @ [''mariadb'']"

definition mysql_cnf :: "world \<Rightarrow> path" where
  "mysql_cnf w = mysql_dir w @ [''my.cnf'']"





section \<open>Version discovery\<close>

definition php_dir :: "world \<Rightarrow> path" where
  "php_dir w = stack_dir w @ [''php'']"

definition current_link :: "world \<Rightarrow> path" where
  "current_link w = php_dir w @ [''current'']"

text \<open>\<open>name.replace('.', '').isdigit() and len(name) <= 4\<close>\<close>

definition looks_like_version :: "string \<Rightarrow> bool" where
  "looks_like_version name =
     (str_isdigit (filter (\<lambda>c. c \<noteq> CHR ''.'') name) \<and> length name \<le> 4)"

text \<open>The loop both functions run over the entries of the PHP directory.\<close>

definition installed_versions :: "filesystem \<Rightarrow> path \<Rightarrow> string list \<Rightarrow> string list" where
  "installed_versions f d names =
     filter (\<lambda>name. is_dir f (d @ [name]) \<and> looks_like_version name
                     \<and> path_exists f (d @ [name, ''bin'', ''php''])) names"

definition populate_php_versions :: "unit action" where
  "populate_php_versions w0 =
     (let w = w0\<lparr>php_version_combo := []\<rparr>
      in case (if path_exists (fs w) (php_dir w)
               then (case iterdir (fs w) (php_dir w) of
                       Inl e \<Rightarrow> Inl e
                     | Inr names \<Rightarrow> Inr (installed_versions (fs w) (php_dir w) names))
               else Inr []) of
           Inl e \<Rightarrow> (Inl e, w)
         | Inr found \<Rightarrow>
             (if found = []
              then (if path_exists (fs w) (current_link w) \<and> is_symlink (fs w) (current_link w)
                    then (case canonical (fs w) (current_link w) of
                            None \<Rightarrow> (Inr (), w)
                          | Some q \<Rightarrow> (Inr (), w\<lparr>php_version_combo := [if q = [] then [] else last q]\<rparr>))
                    else (Inr (), w))
              else (Inr (), w\<lparr>php_version_combo := found\<rparr>)))"

definition fix_php_symlinks :: "unit action" where
  "fix_php_symlinks w =
     (if \<not> path_exists (fs w) (php_dir w)
      then message_box Warning ''Fix Symlinks'' ''PHP directory not found!'' w
      else case iterdir (fs w) (php_dir w) of
             Inl e \<Rightarrow> (Inl e, w)
           | Inr names \<Rightarrow>
               (let php_versions = installed_versions (fs w) (php_dir w) names
                in if php_versions = []
                   then message_box Warning ''Fix Symlinks'' ''No valid PHP installations found!'' w
                   else and_then
                          (\<lambda>w1. if path_exists (fs w1) (current_link w1) \<or> is_symlink (fs w1) (current_link w1)
                                 then try_except
                                        (on_fs (\<lambda>f. if is_symlink f (current_link w1)
                                                     then unlink f (current_link w1)
                                                     else rmtree f (current_link w1)))
                                        (\<lambda>e. log_message (''Error removing old symlink: '' @ exn_str e)) w1
                                 else (Inr (), w1))
                          (\<lambda>_. try_except
                                  (and_then (on_fs (\<lambda>f. symlink_to f (current_link w)
                                                           (php_dir w @ [hd php_versions])))
                                    (\<lambda>_. and_then (log_message (''Fixed PHP symlink to version ''
                                                                  @ hd php_versions))
                                      (\<lambda>_. message_box Information ''Fix Symlinks''
                                              (''PHP symlink fixed to version '' @ hd php_versions))))
                                  (\<lambda>e. and_then (log_message (''Error creating symlink: '' @ exn_str e))
                                         (\<lambda>_. message_box Critical ''Fix Symlinks''
                                                 (''Failed to create symlink: '' @ exn_str e))))
                          w))"

text \<open>
  \<open>new_links_to targets w0 w1\<close>: every entry of the file system of \<open>w1\<close> was there in \<open>w0\<close>
  already, or is a symbolic link to one of the targets.
\<close>

definition new_links_to :: "path set \<Rightarrow> world \<Rightarrow> world \<Rightarrow> bool" where
  "new_links_to targets w0 w1 =
     (\<forall>entry \<in> set (fs w1). entry \<in> set (fs w0) \<or> (\<exists>q t. entry = (q, Link t) \<and> t \<in> targets))"

section \<open>Status probes\<close>

definition mysql_admin :: "world \<Rightarrow> path" where
  "mysql_admin w = mysql_dir w @ [''bin'', ''mariadb-admin'']"

definition mysql_socket :: "world \<Rightarrow> path" where
  "mysql_socket w = mysql_dir w @ [''mariadb.sock'']"

definition mysql_pid_file :: "world \<Rightarrow> path" where
  "mysql_pid_file w = mysql_dir w @ [''mariadb.pid'']"

definition nginx_pid_file :: "world \<Rightarrow> path" where
  "nginx_pid_file w = stack_dir w @ [''nginx'', ''nginx.pid'']"

definition php_pid_file :: "world \<Rightarrow> path" where
  "php_pid_file w = current_link w @ [''php-fpm.pid'']"

definition admin_argv :: "world \<Rightarrow> string \<Rightarrow> string list" where
  "admin_argv w command =
     [path_str (mysql_admin w), ''--socket='' @ path_str (mysql_socket w), command]"



record status =
  stack_health :: string
  nginx_status :: string
  php_status :: string
  php_version :: string
  mysql_status :: string


section \<open>Process controller\<close>



text \<open>
  \<open>int(f.read().strip())\<close> of a PID file that exists, and \<open>os.kill(pid, signal.SIGTERM)\<close>.
\<close>

definition signal_pid_file :: "path \<Rightarrow> unit action" where
  "signal_pid_file pid_file w =
     (if path_exists (fs w) pid_file
      then (case read_text (fs w) pid_file of
              Inl e \<Rightarrow> (Inl e, w)
            | Inr content \<Rightarrow>
                (case py_int (py_strip content) of
                   None \<Rightarrow> (Inl (Exn ValueError (''invalid literal for int() with base 10: ''
                                                  @ py_repr (py_strip content))), w)
                 | Some pid \<Rightarrow> os_kill pid w))
      else (Inr (), w))"

definition stop_service :: "string \<Rightarrow> unit action" where
  "stop_service service w =
     try_except
       (and_then get_environment
         (\<lambda>env. and_then
            (\<lambda>w1. if service = ''nginx'' then signal_pid_file (nginx_pid_file w1) w1
                   else if service = ''php'' then signal_pid_file (php_pid_file w1) w1
                   else if service = ''mysql''
                   then (if path_exists (fs w1) (mysql_admin w1)
                         then and_then (subprocess_run (admin_argv w1 ''shutdown''))
                                (\<lambda>(rc, out, err) w2.
                                   if rc \<noteq> 0
                                   then and_then (log_message
                                                    (''Graceful shutdown failed, trying force kill: '' @ err))
                                          (\<lambda>_. signal_pid_file (mysql_pid_file w2)) w2
                                   else (Inr (), w2)) w1
                         else log_message ''MySQL admin not found, cannot stop gracefully'' w1)
                   else (Inr (), w1))
            (\<lambda>_. log_message (''Stopped '' @ service @ '' service''))))
       (\<lambda>e. and_then (log_message (''Error stopping '' @ service @ '': '' @ exn_str e))
              (\<lambda>_. message_box Critical (''Stop '' @ service)
                      (''Failed to stop '' @ service @ '': '' @ exn_str e)))
       w"

section \<open>Orchestrator and version switch\<close>



definition switch_php_version :: "string \<Rightarrow> unit action" where
  "switch_php_version version w =
     (if version = [] then (Inr (), w)
      else try_except
             (and_then (stop_service ''php'')
               (\<lambda>_. and_then (\<lambda>w1. if path_exists (fs w1) (current_link w1)
                                    then on_fs (\<lambda>f. unlink f (current_link w1)) w1
                                    else (Inr (), w1))
                 (\<lambda>_. and_then (on_fs (\<lambda>f. symlink_to f (current_link w) (php_dir w @ [version])))
                   (\<lambda>_. and_then (single_shot 1000 (StartService ''php''))
                     (\<lambda>_. log_message (''Switched to PHP '' @ version))))))
             (\<lambda>e. and_then (log_message (''Error switching PHP version: '' @ exn_str e))
                    (\<lambda>_. message_box Critical ''PHP Switch''
                            (''Failed to switch PHP version: '' @ exn_str e)))
             w)"

subsection \<open>The event loop\<close>




section \<open>Notions used to state the properties\<close>

definition log_text :: "world \<Rightarrow> string" where
  "log_text w = (case applog w of None \<Rightarrow> [] | Some content \<Rightarrow> content)"

text \<open>
  Two worlds that differ at most in the content of the operational log and in the record
  of the commands run: same files, same environment, same processes signalled and
  launched, same pending timers.
\<close>

definition same_but_log :: "world \<Rightarrow> world \<Rightarrow> bool" where
  "same_but_log w0 w1 = (w1 = w0\<lparr>applog := applog w1, commands := commands w1\<rparr>)"

text \<open>The log of the second world is the log of the first with text added at its end.\<close>

definition log_appended :: "world \<Rightarrow> world \<Rightarrow> bool" where
  "log_appended w0 w1 = (applog w1 = applog w0 \<or> (\<exists>s. applog w1 = Some (log_text w0 @ s)))"


text \<open>The message of the one line \<open>get_environment\<close> writes when it returns.\<close>

definition environment_message :: "world \<Rightarrow> string" where
  "environment_message w =
     (if path_exists (fs w) (stack_dir w @ [''env.sh''])
      then (case run_oracle w (bash_env_argv w) of
              SpawnFailed e \<Rightarrow> []
            | Completed rc out err \<Rightarrow>
                (if rc = 0 then ''Environment loaded from env.sh''
                 else ''Error sourcing env.sh: ''
                      @ exn_str (called_process_error (bash_env_argv w) rc)))
      else ''env.sh not found, using fallback environment'')"

definition probe_rel :: "world \<Rightarrow> world \<Rightarrow> bool" where
  "probe_rel w0 w1 = (same_but_log w0 w1 \<and> log_appended w0 w1)"

text \<open>
  The conditions under which \<open>get_environment\<close> returns: the stack root is a directory, so
  that the log can be written, and the shell can be started if there is an \<open>env.sh\<close>.
\<close>

definition environment_available :: "world \<Rightarrow> bool" where
  "environment_available w =
     (is_dir (fs w) (stack_dir w)
      \<and> (case run_oracle w (bash_env_argv w) of
            SpawnFailed e \<Rightarrow> \<not> path_exists (fs w) (stack_dir w @ [''env.sh''])
          | Completed rc out err \<Rightarrow> True))"

section \<open>Concrete worlds\<close>

text \<open>
  A small installation used to run the definitions: the stack root of user \<open>dev\<close> with the
  private \<open>deps/lib\<close> and \<open>deps/bin\<close>, no \<open>env.sh\<close>, and a system tree in which \<open>/bin\<close> is a
  link to \<open>/usr/bin\<close>.
\<close>

definition demo_fs :: filesystem where
  "demo_fs =
     [([''home''], Dir), ([''home'', ''dev''], Dir), ([''home'', ''dev'', ''webstack''], Dir),
      ([''home'', ''dev'', ''webstack'', ''deps''], Dir),
      ([''home'', ''dev'', ''webstack'', ''deps'', ''lib''], Dir),
      ([''home'', ''dev'', ''webstack'', ''deps'', ''bin''], Dir),
      ([''usr''], Dir), ([''usr'', ''lib''], Dir), ([''usr'', ''bin''], Dir),
      ([''bin''], Link [''usr'', ''bin''])]"

definition demo_world :: world where
  "demo_world =
     \<lparr>home = [''home'', ''dev''], fs = demo_fs, applog = None,
      environ = [''PATH'' \<mapsto> ''/usr/local/bin''], now = ''2024-05-01 12:00:00'',
      run_oracle = (\<lambda>argv. SpawnFailed (Exn FileNotFoundError ''[Errno 2] No such file or directory'')),
      popen_oracle = (\<lambda>argv. None), kill_oracle = (\<lambda>pid. None),
      commands = [], spawned = [], signals = [], dialogs = [], timers = [], clock = 0, calls = [],
      mysql_port = Some 3306, auto_load_env = False, php_version_combo = []\<rparr>"

text \<open>
  The same installation with an \<open>env.sh\<close> that exports the library path only; sourcing it
  succeeds and \<open>env\<close> prints three variables.
\<close>

definition primary_world :: world where
  "primary_world =
     demo_world\<lparr>fs := demo_fs @ [([''home'', ''dev'', ''webstack'', ''env.sh''],
                                 File ''export LD_LIBRARY_PATH=/home/dev/webstack/deps/lib'')],
                run_oracle := (\<lambda>argv. Completed 0
                   [''PWD=/home/dev'', ''SHLVL=1'', ''LD_LIBRARY_PATH=/home/dev/webstack/deps/lib''] [])\<rparr>"



text \<open>
  Two PHP trees.  In the first, \<open>8.3\<close> and \<open>8.3.10\<close> are both installed with their binaries
  and there is no \<open>current\<close>.  In the second only \<open>8.3.10\<close> is installed, and \<open>current\<close>
  is a link to it.
\<close>

definition php_world :: world where
  "php_world =
     demo_world\<lparr>fs := demo_fs @
        [([''home'', ''dev'', ''webstack'', ''php''], Dir),
         ([''home'', ''dev'', ''webstack'', ''php'', ''8.3.10''], Dir),
         ([''home'', ''dev'', ''webstack'', ''php'', ''8.3.10'', ''bin''], Dir),
         ([''home'', ''dev'', ''webstack'', ''php'', ''8.3.10'', ''bin'', ''php''], File ''ELF''),
         ([''home'', ''dev'', ''webstack'', ''php'', ''8.3''], Dir),
         ([''home'', ''dev'', ''webstack'', ''php'', ''8.3'', ''bin''], Dir),
         ([''home'', ''dev'', ''webstack'', ''php'', ''8.3'', ''bin'', ''php''], File ''ELF'')]\<rparr>"

definition long_name_world :: world where
  "long_name_world =
     demo_world\<lparr>fs := demo_fs @
        [([''home'', ''dev'', ''webstack'', ''php''], Dir),
         ([''home'', ''dev'', ''webstack'', ''php'', ''8.3.10''], Dir),
         ([''home'', ''dev'', ''webstack'', ''php'', ''8.3.10'', ''bin''], Dir),
         ([''home'', ''dev'', ''webstack'', ''php'', ''8.3.10'', ''bin'', ''php''], File ''ELF''),
         ([''home'', ''dev'', ''webstack'', ''php'', ''current''],
          Link [''home'', ''dev'', ''webstack'', ''php'', ''8.3.10''])]\<rparr>"


text \<open>
  A database directory with a PID file holding 4242 but without the administrative
  client.
\<close>

definition no_admin_world :: world where
  "no_admin_world =
     demo_world\<lparr>fs := demo_fs @
        [([''home'', ''dev'', ''webstack'', ''mariadb''], Dir),
         ([''home'', ''dev'', ''webstack'', ''mariadb'', ''mariadb.pid''], File ''4242'')]\<rparr>"

text \<open>
  A PHP tree where \<open>8.3\<close> is installed and current, and where the directory \<open>8.2\<close> is left
  without its binary.
\<close>

definition switch_world :: world where
  "switch_world =
     demo_world\<lparr>fs := demo_fs @
        [([''home'', ''dev'', ''webstack'', ''php''], Dir),
         ([''home'', ''dev'', ''webstack'', ''php'', ''8.3''], Dir),
         ([''home'', ''dev'', ''webstack'', ''php'', ''8.3'', ''bin''], Dir),
         ([''home'', ''dev'', ''webstack'', ''php'', ''8.3'', ''bin'', ''php''], File ''ELF''),
         ([''home'', ''dev'', ''webstack'', ''php'', ''8.2''], Dir),
         ([''home'', ''dev'', ''webstack'', ''php'', ''current''],
          Link [''home'', ''dev'', ''webstack'', ''php'', ''8.3''])]\<rparr>"

section \<open>Environment resolver: properties\<close>

text \<open>
  Claim C6.  In the environment built by \<open>get_fallback_environment\<close>, \<open>LD_LIBRARY_PATH\<close>
  and \<open>PATH\<close> are exactly what the specification's rule gives for the fixed candidate
  lists: the candidates that exist on disk, private entries (\<open>deps/lib\<close>, \<open>deps/lib64\<close>;
  \<open>deps/bin\<close>, the stack's \<open>bin\<close>) before system entries, in candidate order, joined by
  \<open>:\<close> and put in front of the inherited value, or alone when nothing was inherited.
\<close>

theorem fallback_search_paths:
  "get_fallback_environment w ''LD_LIBRARY_PATH'' =
     Some (spec_search_path w
             [deps_dir w @ [''lib''], deps_dir w @ [''lib64'']]
             [[''usr'', ''lib''], [''usr'', ''lib64''], [''lib''], [''lib64'']]
             (environ w ''LD_LIBRARY_PATH''))
   \<and> get_fallback_environment w ''PATH'' =
     Some (spec_search_path w
             [deps_dir w @ [''bin''], stack_dir w @ [''bin'']]
             [[''usr'', ''bin''], [''bin'']]
             (environ w ''PATH''))"
  by (simp add: get_fallback_environment_def spec_search_path_def Let_def split: option.split)

theorem fallback_search_paths_witness:
  "get_fallback_environment demo_world ''PATH'' =
     Some ''/home/dev/webstack/deps/bin:/usr/bin:/bin:/usr/local/bin''
   \<and> get_fallback_environment demo_world ''LD_LIBRARY_PATH'' =
     Some ''/home/dev/webstack/deps/lib:/usr/lib''"
  using fallback_search_paths [of demo_world]
  by (simp add: spec_search_path_def demo_world_def stack_dir_def deps_dir_def path_str_def
      path_exists_def stat_def canonical_def demo_fs_def)

lemma get_fallback_environment_cong:
  "fs w' = fs w \<Longrightarrow> environ w' = environ w \<Longrightarrow> home w' = home w \<Longrightarrow>
   get_fallback_environment w' = get_fallback_environment w"
  by (simp add: get_fallback_environment_def stack_dir_def deps_dir_def)

lemma log_message_ok:
  "is_dir (fs w) (stack_dir w) \<Longrightarrow>
   log_message msg w = (Inr (), w\<lparr>applog := Some ((case applog w of None \<Rightarrow> [] | Some old \<Rightarrow> old) @ log_entry (now w) msg)\<rparr>)"
  by (simp add: log_message_def)

text \<open>
  Claim C4 as stated fails on the primary strategy: with an \<open>env.sh\<close> that does not export
  them, the environment \<open>get_environment\<close> returns has neither \<open>WEBSTACK_HOME\<close> nor
  \<open>PKG_CONFIG_PATH\<close>.
\<close>

theorem get_environment_primary_counterexample:
  "fst (get_environment primary_world) =
     Inr (overlay_env [''PWD=/home/dev'', ''SHLVL=1'', ''LD_LIBRARY_PATH=/home/dev/webstack/deps/lib'']
            (environ primary_world))
   \<and> overlay_env [''PWD=/home/dev'', ''SHLVL=1'', ''LD_LIBRARY_PATH=/home/dev/webstack/deps/lib'']
            (environ primary_world) ''WEBSTACK_HOME'' = None
   \<and> overlay_env [''PWD=/home/dev'', ''SHLVL=1'', ''LD_LIBRARY_PATH=/home/dev/webstack/deps/lib'']
            (environ primary_world) ''PKG_CONFIG_PATH'' = None"
  by (simp add: get_environment_def primary_world_def demo_world_def demo_fs_def stack_dir_def
      and_then_def subprocess_run_def
      log_message_def is_dir_def path_exists_def stat_def canonical_def split_env_line_def)

text \<open>
  Claim C4, amended.  With the stack root in place, \<open>get_fallback_environment\<close> always sets
  \<open>WEBSTACK_HOME\<close> to the stack root and \<open>PKG_CONFIG_PATH\<close> to \<open>deps/lib/pkgconfig\<close>, and
  \<open>get_environment\<close> returns that environment whenever it takes the fallback (\<open>env.sh\<close>
  missing, or \<open>bash\<close> exiting with a non-zero status).  When sourcing \<open>env.sh\<close> succeeds
  the result is the inherited environment overlaid with the lines \<open>env\<close> printed, so the
  two variables are set only if one of those defines them.
\<close>

theorem get_environment_auxiliary_variables:
  assumes "is_dir (fs w) (stack_dir w)"
  shows "get_fallback_environment w ''WEBSTACK_HOME'' = Some (path_str (stack_dir w))
       \<and> get_fallback_environment w ''PKG_CONFIG_PATH'' =
           Some (path_str (deps_dir w @ [''lib'', ''pkgconfig'']))
       \<and> (\<not> path_exists (fs w) (stack_dir w @ [''env.sh'']) \<longrightarrow>
            fst (get_environment w) = Inr (get_fallback_environment w))
       \<and> (\<forall>rc out err. path_exists (fs w) (stack_dir w @ [''env.sh''])
              \<and> run_oracle w (bash_env_argv w) = Completed rc out err \<and> rc \<noteq> 0 \<longrightarrow>
            fst (get_environment w) = Inr (get_fallback_environment w))
       \<and> (\<forall>out err. path_exists (fs w) (stack_dir w @ [''env.sh''])
              \<and> run_oracle w (bash_env_argv w) = Completed 0 out err \<longrightarrow>
            fst (get_environment w) = Inr (overlay_env out (environ w)))"
proof -
  have aux: "get_fallback_environment w ''WEBSTACK_HOME'' = Some (path_str (stack_dir w))
       \<and> get_fallback_environment w ''PKG_CONFIG_PATH'' =
           Some (path_str (deps_dir w @ [''lib'', ''pkgconfig'']))"
    by (simp add: get_fallback_environment_def Let_def split: option.split)
  have absent: "\<not> path_exists (fs w) (stack_dir w @ [''env.sh'']) \<longrightarrow>
            fst (get_environment w) = Inr (get_fallback_environment w)"
    using assms
    by (auto simp: get_environment_def and_then_def log_message_ok stack_dir_def
        intro!: get_fallback_environment_cong)
  have failed: "\<forall>rc out err. path_exists (fs w) (stack_dir w @ [''env.sh''])
              \<and> run_oracle w (bash_env_argv w) = Completed rc out err \<and> rc \<noteq> 0 \<longrightarrow>
            fst (get_environment w) = Inr (get_fallback_environment w)"
    using assms
    by (auto simp: get_environment_def and_then_def subprocess_run_def log_message_ok stack_dir_def
        intro!: get_fallback_environment_cong)
  have primary: "\<forall>out err. path_exists (fs w) (stack_dir w @ [''env.sh''])
              \<and> run_oracle w (bash_env_argv w) = Completed 0 out err \<longrightarrow>
            fst (get_environment w) = Inr (overlay_env out (environ w))"
    using assms
    by (auto simp: get_environment_def and_then_def subprocess_run_def log_message_ok stack_dir_def)
  from aux absent failed primary show ?thesis by blast
qed

theorem get_environment_auxiliary_variables_witness:
  "is_dir (fs demo_world) (stack_dir demo_world)
   \<and> fst (get_environment demo_world) = Inr (get_fallback_environment demo_world)
   \<and> get_fallback_environment demo_world ''WEBSTACK_HOME'' = Some ''/home/dev/webstack''
   \<and> get_fallback_environment demo_world ''PKG_CONFIG_PATH'' =
       Some ''/home/dev/webstack/deps/lib/pkgconfig''"
proof -
  have d: "is_dir (fs demo_world) (stack_dir demo_world)"
    by (simp add: demo_world_def demo_fs_def stack_dir_def is_dir_def stat_def canonical_def)
  have a: "\<not> path_exists (fs demo_world) (stack_dir demo_world @ [''env.sh''])"
    by (simp add: demo_world_def demo_fs_def stack_dir_def path_exists_def stat_def canonical_def)
  have p: "path_str (stack_dir demo_world) = ''/home/dev/webstack''"
       "path_str (deps_dir demo_world @ [''lib'', ''pkgconfig'']) = ''/home/dev/webstack/deps/lib/pkgconfig''"
    by (simp_all add: demo_world_def stack_dir_def deps_dir_def path_str_def)
  from get_environment_auxiliary_variables [OF d] a d p show ?thesis by simp
qed


section \<open>Regular expressions: properties\<close>

lemma digit_char_re_digit: "d < 10 \<Longrightarrow> re_digit (digit_char d)"
  by (simp add: re_digit_def digit_char_def)

lemma str_nat_digits: "str_nat n \<noteq> [] \<and> list_all re_digit (str_nat n)"
proof (induction n rule: str_nat.induct)
  case (1 n)
  show ?case
  proof (cases "n < 10")
    case True
    then show ?thesis by (simp add: str_nat.simps [of n] digit_char_re_digit)
  next
    case False
    with 1 show ?thesis by (simp add: str_nat.simps [of n] digit_char_re_digit)
  qed
qed

lemma class_facts [simp]:
  "\<not> py_isspace CHR ''l''" "\<not> re_digit CHR ''l''"
  "\<not> py_isspace CHR ''p''" "\<not> re_digit CHR ''p''"
  "\<not> py_isspace CHR '';''" "\<not> re_digit CHR '';''"
  "\<not> py_isspace CHR ''=''" "\<not> re_digit CHR ''=''"
  "\<not> py_isspace CHR ''/''" "\<not> re_digit CHR ''/''"
  "py_isspace CHR '' ''"
  by (simp_all add: py_isspace_def re_digit_def)



lemma re_sub_skip:
  assumes "\<And>s g n. m s = Some (g, n) \<Longrightarrow> hd s = c0" and "c0 \<notin> set u"
  shows "re_sub m repl (u @ t) = u @ re_sub m repl t"
  using assms(2)
proof (induction u)
  case Nil
  then show ?case by simp
next
  case (Cons x u)
  have "m (x # u @ t) = None"
  proof (cases "m (x # u @ t)")
    case (Some a)
    then obtain g n where "m (x # u @ t) = Some (g, n)" by (cases a) auto
    from assms(1) [OF this] Cons.prems show ?thesis by simp
  qed simp
  with Cons show ?case by simp
qed








subsection \<open>The \<open>listen\<close> directive\<close>






subsection \<open>The \<open>port\<close> directive\<close>







section \<open>The configuration templates\<close>

lemma str_int_digits [simp]: "0 \<le> i \<Longrightarrow> str_int i \<noteq> []" "0 \<le> i \<Longrightarrow> list_all re_digit (str_int i)"
  using str_nat_digits [of "nat i"] by (simp_all add: str_int_def)











section \<open>The file system: properties\<close>

















section \<open>Actions: composition and frames\<close>

text \<open>
  A relation between the world a computation started in and the worlds it passes through
  is carried along a sequence, and across an exception handler, step by step.
\<close>

lemma and_then_rel:
  assumes "R w0 (snd (a w))" and "\<And>x w1. R w0 w1 \<Longrightarrow> R w0 (snd (k x w1))"
  shows "R w0 (snd (and_then a k w))"
proof (cases "a w")
  case (Pair r w1)
  with assms(1) have "R w0 w1" by simp
  with Pair assms(2) show ?thesis by (cases r) (simp_all add: and_then_def)
qed

lemma try_except_rel:
  assumes "R w0 (snd (a w))" and "\<And>e w1. R w0 w1 \<Longrightarrow> R w0 (snd (h e w1))"
  shows "R w0 (snd (try_except a h w))"
proof (cases "a w")
  case (Pair r w1)
  with assms(1) have "R w0 w1" by simp
  with Pair assms(2) show ?thesis by (cases r) (simp_all add: try_except_def)
qed

lemma log_message_frame [simp]:
  "home (snd (log_message msg w)) = home w"
  "fs (snd (log_message msg w)) = fs w"
  "environ (snd (log_message msg w)) = environ w"
  "now (snd (log_message msg w)) = now w"
  "run_oracle (snd (log_message msg w)) = run_oracle w"
  "popen_oracle (snd (log_message msg w)) = popen_oracle w"
  "kill_oracle (snd (log_message msg w)) = kill_oracle w"
  "commands (snd (log_message msg w)) = commands w"
  "spawned (snd (log_message msg w)) = spawned w"
  "signals (snd (log_message msg w)) = signals w"
  "dialogs (snd (log_message msg w)) = dialogs w"
  "timers (snd (log_message msg w)) = timers w"
  "clock (snd (log_message msg w)) = clock w"
  "calls (snd (log_message msg w)) = calls w"
  "mysql_port (snd (log_message msg w)) = mysql_port w"
  "auto_load_env (snd (log_message msg w)) = auto_load_env w"
  "php_version_combo (snd (log_message msg w)) = php_version_combo w"
  by (simp_all add: log_message_def Let_def)

lemma message_box_frame [simp]:
  "home (snd (message_box k t m w)) = home w"
  "fs (snd (message_box k t m w)) = fs w"
  "applog (snd (message_box k t m w)) = applog w"
  "environ (snd (message_box k t m w)) = environ w"
  "now (snd (message_box k t m w)) = now w"
  "run_oracle (snd (message_box k t m w)) = run_oracle w"
  "popen_oracle (snd (message_box k t m w)) = popen_oracle w"
  "kill_oracle (snd (message_box k t m w)) = kill_oracle w"
  "commands (snd (message_box k t m w)) = commands w"
  "spawned (snd (message_box k t m w)) = spawned w"
  "signals (snd (message_box k t m w)) = signals w"
  "timers (snd (message_box k t m w)) = timers w"
  "clock (snd (message_box k t m w)) = clock w"
  "calls (snd (message_box k t m w)) = calls w"
  "mysql_port (snd (message_box k t m w)) = mysql_port w"
  "auto_load_env (snd (message_box k t m w)) = auto_load_env w"
  "php_version_combo (snd (message_box k t m w)) = php_version_combo w"
  "fst (message_box k t m w) = Inr ()"
  by (simp_all add: message_box_def)

lemma on_fs_frame [simp]:
  "home (snd (on_fs op w)) = home w"
  "applog (snd (on_fs op w)) = applog w"
  "environ (snd (on_fs op w)) = environ w"
  "now (snd (on_fs op w)) = now w"
  "run_oracle (snd (on_fs op w)) = run_oracle w"
  "popen_oracle (snd (on_fs op w)) = popen_oracle w"
  "kill_oracle (snd (on_fs op w)) = kill_oracle w"
  "commands (snd (on_fs op w)) = commands w"
  "spawned (snd (on_fs op w)) = spawned w"
  "signals (snd (on_fs op w)) = signals w"
  "dialogs (snd (on_fs op w)) = dialogs w"
  "timers (snd (on_fs op w)) = timers w"
  "clock (snd (on_fs op w)) = clock w"
  "calls (snd (on_fs op w)) = calls w"
  "mysql_port (snd (on_fs op w)) = mysql_port w"
  "auto_load_env (snd (on_fs op w)) = auto_load_env w"
  "php_version_combo (snd (on_fs op w)) = php_version_combo w"
  by (simp_all add: on_fs_def split: sum.splits)

lemma on_fs_fs: "fs (snd (on_fs op w)) = (case op (fs w) of Inl e \<Rightarrow> fs w | Inr f1 \<Rightarrow> f1)"
  by (simp add: on_fs_def split: sum.splits)

lemma single_shot_frame [simp]:
  "home (snd (single_shot msec cb w)) = home w"
  "fs (snd (single_shot msec cb w)) = fs w"
  "applog (snd (single_shot msec cb w)) = applog w"
  "environ (snd (single_shot msec cb w)) = environ w"
  "now (snd (single_shot msec cb w)) = now w"
  "run_oracle (snd (single_shot msec cb w)) = run_oracle w"
  "popen_oracle (snd (single_shot msec cb w)) = popen_oracle w"
  "kill_oracle (snd (single_shot msec cb w)) = kill_oracle w"
  "commands (snd (single_shot msec cb w)) = commands w"
  "spawned (snd (single_shot msec cb w)) = spawned w"
  "signals (snd (single_shot msec cb w)) = signals w"
  "dialogs (snd (single_shot msec cb w)) = dialogs w"
  "clock (snd (single_shot msec cb w)) = clock w"
  "calls (snd (single_shot msec cb w)) = calls w"
  "mysql_port (snd (single_shot msec cb w)) = mysql_port w"
  "auto_load_env (snd (single_shot msec cb w)) = auto_load_env w"
  "php_version_combo (snd (single_shot msec cb w)) = php_version_combo w"
  by (simp_all add: single_shot_def)

lemma subprocess_run_frame [simp]:
  "home (snd (subprocess_run argv w)) = home w"
  "fs (snd (subprocess_run argv w)) = fs w"
  "applog (snd (subprocess_run argv w)) = applog w"
  "environ (snd (subprocess_run argv w)) = environ w"
  "now (snd (subprocess_run argv w)) = now w"
  "run_oracle (snd (subprocess_run argv w)) = run_oracle w"
  "popen_oracle (snd (subprocess_run argv w)) = popen_oracle w"
  "kill_oracle (snd (subprocess_run argv w)) = kill_oracle w"
  "spawned (snd (subprocess_run argv w)) = spawned w"
  "signals (snd (subprocess_run argv w)) = signals w"
  "dialogs (snd (subprocess_run argv w)) = dialogs w"
  "timers (snd (subprocess_run argv w)) = timers w"
  "clock (snd (subprocess_run argv w)) = clock w"
  "calls (snd (subprocess_run argv w)) = calls w"
  "mysql_port (snd (subprocess_run argv w)) = mysql_port w"
  "auto_load_env (snd (subprocess_run argv w)) = auto_load_env w"
  "php_version_combo (snd (subprocess_run argv w)) = php_version_combo w"
  by (simp_all add: subprocess_run_def split: proc_outcome.splits)

lemma popen_frame [simp]:
  "home (snd (popen argv w)) = home w"
  "fs (snd (popen argv w)) = fs w"
  "applog (snd (popen argv w)) = applog w"
  "environ (snd (popen argv w)) = environ w"
  "now (snd (popen argv w)) = now w"
  "run_oracle (snd (popen argv w)) = run_oracle w"
  "popen_oracle (snd (popen argv w)) = popen_oracle w"
  "kill_oracle (snd (popen argv w)) = kill_oracle w"
  "commands (snd (popen argv w)) = commands w"
  "signals (snd (popen argv w)) = signals w"
  "dialogs (snd (popen argv w)) = dialogs w"
  "timers (snd (popen argv w)) = timers w"
  "clock (snd (popen argv w)) = clock w"
  "calls (snd (popen argv w)) = calls w"
  "mysql_port (snd (popen argv w)) = mysql_port w"
  "auto_load_env (snd (popen argv w)) = auto_load_env w"
  "php_version_combo (snd (popen argv w)) = php_version_combo w"
  by (simp_all add: popen_def split: option.splits)

lemma os_kill_frame [simp]:
  "home (snd (os_kill pid w)) = home w"
  "fs (snd (os_kill pid w)) = fs w"
  "applog (snd (os_kill pid w)) = applog w"
  "environ (snd (os_kill pid w)) = environ w"
  "now (snd (os_kill pid w)) = now w"
  "run_oracle (snd (os_kill pid w)) = run_oracle w"
  "popen_oracle (snd (os_kill pid w)) = popen_oracle w"
  "kill_oracle (snd (os_kill pid w)) = kill_oracle w"
  "commands (snd (os_kill pid w)) = commands w"
  "spawned (snd (os_kill pid w)) = spawned w"
  "dialogs (snd (os_kill pid w)) = dialogs w"
  "timers (snd (os_kill pid w)) = timers w"
  "clock (snd (os_kill pid w)) = clock w"
  "calls (snd (os_kill pid w)) = calls w"
  "mysql_port (snd (os_kill pid w)) = mysql_port w"
  "auto_load_env (snd (os_kill pid w)) = auto_load_env w"
  "php_version_combo (snd (os_kill pid w)) = php_version_combo w"
  by (simp_all add: os_kill_def split: option.splits)


section \<open>Configuration mutator: properties\<close>










lemmas demo_eval = demo_world_def demo_fs_def stack_dir_def path_exists_def is_dir_def stat_def
  canonical_def lcanonical_def













section \<open>Version discovery: properties\<close>

lemma unlink_subset: "unlink f p = Inr f1 \<Longrightarrow> set f1 \<subseteq> set f"
  by (auto simp: unlink_def AList.delete_eq split: option.splits if_splits node.splits)

lemma rmtree_subset: "rmtree f p = Inr f1 \<Longrightarrow> set f1 \<subseteq> set f"
  by (auto simp: rmtree_def split: option.splits if_splits node.splits)

lemma symlink_to_set: "symlink_to f p t = Inr f1 \<Longrightarrow> \<exists>q. set f1 = insert (q, Link t) (set f)"
  by (auto simp: symlink_to_def split: option.splits if_splits)

text \<open>
  Claim C9 as stated fails for \<open>populate_php_versions\<close>: where \<open>8.3.10\<close> is the only
  installed directory and \<open>current\<close> links to it, the selector lists \<open>8.3.10\<close>, a name of six
  characters with a valid binary.
\<close>

theorem populate_lists_long_name_counterexample:
  "php_version_combo (snd (populate_php_versions long_name_world)) = [''8.3.10'']
   \<and> path_exists (fs long_name_world) (php_dir long_name_world @ [''8.3.10'', ''bin'', ''php''])
   \<and> \<not> looks_like_version ''8.3.10''"
  by (simp add: populate_php_versions_def long_name_world_def php_dir_def current_link_def
      iterdir_def installed_versions_def looks_like_version_def str_isdigit_def py_isdigit_def
      is_symlink_def lstat_def demo_eval)

lemma new_links_to_same: "new_links_to T w0 w1 \<Longrightarrow> fs w2 = fs w1 \<Longrightarrow> new_links_to T w0 w2"
  by (simp add: new_links_to_def)

lemma new_links_to_subset: "new_links_to T w0 w1 \<Longrightarrow> set (fs w2) \<subseteq> set (fs w1) \<Longrightarrow> new_links_to T w0 w2"
  by (auto simp: new_links_to_def)

lemma fix_php_symlinks_links:
  "new_links_to {t. \<exists>names v. iterdir (fs w) (php_dir w) = Inr names
                     \<and> v \<in> set (installed_versions (fs w) (php_dir w) names)
                     \<and> t = php_dir w @ [v]} w (snd (fix_php_symlinks w))"
proof -
  define T where "T = {t. \<exists>names v. iterdir (fs w) (php_dir w) = Inr names
                     \<and> v \<in> set (installed_versions (fs w) (php_dir w) names)
                     \<and> t = php_dir w @ [v]}"
  have refl: "new_links_to T w w" by (simp add: new_links_to_def)
  note at = and_then_rel [where R = "new_links_to T" and ?w0.0 = w]
  note te = try_except_rel [where R = "new_links_to T" and ?w0.0 = w]
  have "new_links_to T w (snd (fix_php_symlinks w))"
  proof (cases "path_exists (fs w) (php_dir w)")
    case False
    then show ?thesis
      by (simp add: fix_php_symlinks_def new_links_to_def)
  next
    case True
    show ?thesis
    proof (cases "iterdir (fs w) (php_dir w)")
      case (Inl e)
      with True refl show ?thesis by (simp add: fix_php_symlinks_def)
    next
      case (Inr names)
      show ?thesis
      proof (cases "installed_versions (fs w) (php_dir w) names = []")
        case True
        with \<open>path_exists (fs w) (php_dir w)\<close> Inr show ?thesis
          by (simp add: fix_php_symlinks_def new_links_to_def)
      next
        case False
        then have hd_in: "hd (installed_versions (fs w) (php_dir w) names)
                            \<in> set (installed_versions (fs w) (php_dir w) names)"
          by simp
        have rm: "new_links_to T w
                    (snd (on_fs (\<lambda>f. if is_symlink f p then unlink f p else rmtree f p) w1))"
          if "new_links_to T w w1" for w1 p
          using that
          by (rule new_links_to_subset)
             (auto simp: on_fs_fs split: sum.splits if_splits dest: unlink_subset rmtree_subset)
        have ln: "new_links_to T w
                    (snd (on_fs (\<lambda>f. symlink_to f p
                            (php_dir w @ [hd (installed_versions (fs w) (php_dir w) names)])) w1))"
          if "new_links_to T w w1" for w1 p
        proof (cases "symlink_to (fs w1) p (php_dir w @ [hd (installed_versions (fs w) (php_dir w) names)])")
          case (Inl e)
          with that show ?thesis by (simp add: new_links_to_def on_fs_fs)
        next
          case (Inr f1)
          from symlink_to_set [OF this] obtain q where
            "set f1 = insert (q, Link (php_dir w @ [hd (installed_versions (fs w) (php_dir w) names)])) (set (fs w1))"
            by blast
          with that Inr \<open>iterdir (fs w) (php_dir w) = Inr names\<close> hd_in show ?thesis
            by (auto simp: new_links_to_def on_fs_fs T_def)
        qed
        have lg: "new_links_to T w (snd (log_message m w1))" if "new_links_to T w w1" for w1 m
          using that by (rule new_links_to_same) simp
        have mb: "new_links_to T w (snd (message_box k t m w1))" if "new_links_to T w w1" for w1 k t m
          using that by (rule new_links_to_same) simp
        have "new_links_to T w
                (snd (and_then
                  (\<lambda>w1. if path_exists (fs w1) (current_link w1) \<or> is_symlink (fs w1) (current_link w1)
                         then try_except
                                (on_fs (\<lambda>f. if is_symlink f (current_link w1)
                                             then unlink f (current_link w1)
                                             else rmtree f (current_link w1)))
                                (\<lambda>e. log_message (''Error removing old symlink: '' @ exn_str e)) w1
                         else (Inr (), w1))
                  (\<lambda>_. try_except
                          (and_then (on_fs (\<lambda>f. symlink_to f (current_link w)
                                (php_dir w @ [hd (installed_versions (fs w) (php_dir w) names)])))
                            (\<lambda>_. and_then (log_message (''Fixed PHP symlink to version ''
                                              @ hd (installed_versions (fs w) (php_dir w) names)))
                              (\<lambda>_. message_box Information ''Fix Symlinks''
                                      (''PHP symlink fixed to version ''
                                       @ hd (installed_versions (fs w) (php_dir w) names)))))
                          (\<lambda>e. and_then (log_message (''Error creating symlink: '' @ exn_str e))
                                 (\<lambda>_. message_box Critical ''Fix Symlinks''
                                         (''Failed to create symlink: '' @ exn_str e))))
                  w))"
          apply (rule at)
           apply (cases "path_exists (fs w) (current_link w) \<or> is_symlink (fs w) (current_link w)")
            apply (simp only: if_True)
            apply (rule te)
             apply (rule rm [OF refl])
            apply (erule lg)
           apply (simp add: refl)
          apply (rule te)
           apply (rule at)
            apply (erule ln)
           apply (rule at)
            apply (erule lg)
           apply (erule mb)
          apply (rule at)
           apply (erule lg)
          apply (erule mb)
          done
        with \<open>path_exists (fs w) (php_dir w)\<close> Inr False show ?thesis
          by (simp add: fix_php_symlinks_def Let_def)
      qed
    qed
  qed
  then show ?thesis by (simp only: T_def)
qed

text \<open>
  Claim C9, amended.  The loop of both functions keeps a name only if the entry is a
  directory, the name without its dots is a non-empty string of digits, the name has at
  most four characters, and its \<open>bin/php\<close> exists.  \<open>fix_php_symlinks\<close> adds no entry to the
  file system other than a link to a directory the loop kept.  \<open>populate_php_versions\<close>
  lists exactly the names the loop kept; only when it kept none and \<open>current\<close> is a link
  that resolves does it list one name instead, the last component of the link's resolved
  target, whatever its form.
\<close>

theorem version_discovery:
  "(\<forall>v \<in> set (installed_versions f d names).
      v \<in> set names \<and> is_dir f (d @ [v]) \<and> str_isdigit (filter (\<lambda>c. c \<noteq> CHR ''.'') v)
      \<and> length v \<le> 4 \<and> path_exists f (d @ [v, ''bin'', ''php'']))
   \<and> new_links_to {t. \<exists>names v. iterdir (fs w) (php_dir w) = Inr names
                        \<and> v \<in> set (installed_versions (fs w) (php_dir w) names)
                        \<and> t = php_dir w @ [v]} w (snd (fix_php_symlinks w))
   \<and> (\<forall>names. path_exists (fs w) (php_dir w) \<and> iterdir (fs w) (php_dir w) = Inr names \<longrightarrow>
         php_version_combo (snd (populate_php_versions w)) =
           (if installed_versions (fs w) (php_dir w) names \<noteq> []
            then installed_versions (fs w) (php_dir w) names
            else if path_exists (fs w) (current_link w) \<and> is_symlink (fs w) (current_link w)
            then (case canonical (fs w) (current_link w) of
                    None \<Rightarrow> []
                  | Some q \<Rightarrow> [if q = [] then [] else last q])
            else []))"
proof -
  have a: "\<forall>v \<in> set (installed_versions f d names).
      v \<in> set names \<and> is_dir f (d @ [v]) \<and> str_isdigit (filter (\<lambda>c. c \<noteq> CHR ''.'') v)
      \<and> length v \<le> 4 \<and> path_exists f (d @ [v, ''bin'', ''php''])"
    by (auto simp: installed_versions_def looks_like_version_def)
  have c: "\<forall>names. path_exists (fs w) (php_dir w) \<and> iterdir (fs w) (php_dir w) = Inr names \<longrightarrow>
         php_version_combo (snd (populate_php_versions w)) =
           (if installed_versions (fs w) (php_dir w) names \<noteq> []
            then installed_versions (fs w) (php_dir w) names
            else if path_exists (fs w) (current_link w) \<and> is_symlink (fs w) (current_link w)
            then (case canonical (fs w) (current_link w) of
                    None \<Rightarrow> []
                  | Some q \<Rightarrow> [if q = [] then [] else last q])
            else [])"
    by (auto simp: populate_php_versions_def Let_def php_dir_def current_link_def stack_dir_def
        split: option.splits)
  from a fix_php_symlinks_links [of w] c show ?thesis by blast
qed

lemma php_world_listing:
  "path_exists (fs php_world) (php_dir php_world)"
  "iterdir (fs php_world) (php_dir php_world) = Inr [''8.3.10'', ''8.3'']"
  by (simp_all add: php_world_def php_dir_def iterdir_def demo_eval)

lemma php_world_installed:
  "installed_versions (fs php_world) (php_dir php_world) [''8.3.10'', ''8.3''] = [''8.3'']"
  by (simp add: php_world_def php_dir_def installed_versions_def looks_like_version_def
      str_isdigit_def py_isdigit_def demo_eval)

theorem version_discovery_witness:
  "iterdir (fs php_world) (php_dir php_world) = Inr [''8.3.10'', ''8.3'']
   \<and> path_exists (fs php_world) (php_dir php_world @ [''8.3.10'', ''bin'', ''php''])
   \<and> installed_versions (fs php_world) (php_dir php_world) [''8.3.10'', ''8.3''] = [''8.3'']
   \<and> php_version_combo (snd (populate_php_versions php_world)) = [''8.3'']
   \<and> map_of (fs (snd (fix_php_symlinks php_world))) (current_link php_world)
        = Some (Link (php_dir php_world @ [''8.3'']))"
proof -
  have b: "path_exists (fs php_world) (php_dir php_world @ [''8.3.10'', ''bin'', ''php''])"
    by (simp add: php_world_def php_dir_def demo_eval)
  have l: "map_of (fs (snd (fix_php_symlinks php_world))) (current_link php_world)
        = Some (Link (php_dir php_world @ [''8.3'']))"
    by (simp add: fix_php_symlinks_def php_world_listing php_world_installed Let_def
        and_then_def try_except_def on_fs_def symlink_to_def is_symlink_def lstat_def
        log_message_def message_box_def)
       (simp add: php_world_def php_dir_def current_link_def demo_eval
        and_then_def try_except_def on_fs_def symlink_to_def is_symlink_def lstat_def
        log_message_def message_box_def Let_def)
  from version_discovery [of "fs php_world" "php_dir php_world" "[''8.3.10'', ''8.3'']" php_world]
    php_world_listing php_world_installed b l
  show ?thesis by simp
qed

section \<open>Status probes: properties\<close>

lemma same_but_log_refl [simp]: "same_but_log w w"
  by (simp add: same_but_log_def)

lemma same_but_log_iff:
  "same_but_log w0 w1 \<longleftrightarrow>
     home w1 = home w0 \<and> fs w1 = fs w0 \<and> environ w1 = environ w0 \<and> now w1 = now w0
     \<and> run_oracle w1 = run_oracle w0 \<and> popen_oracle w1 = popen_oracle w0
     \<and> kill_oracle w1 = kill_oracle w0 \<and> spawned w1 = spawned w0 \<and> signals w1 = signals w0
     \<and> dialogs w1 = dialogs w0 \<and> timers w1 = timers w0 \<and> clock w1 = clock w0
     \<and> calls w1 = calls w0 \<and> mysql_port w1 = mysql_port w0 \<and> auto_load_env w1 = auto_load_env w0
     \<and> php_version_combo w1 = php_version_combo w0 \<and> world.more w1 = world.more w0"
  unfolding same_but_log_def
  by (cases w0, cases w1) auto

lemma log_appended_refl [simp]: "log_appended w w"
  by (simp add: log_appended_def)

lemma log_appended_trans: "log_appended w0 w1 \<Longrightarrow> log_appended w1 w2 \<Longrightarrow> log_appended w0 w2"
  by (auto simp: log_appended_def log_text_def split: option.splits)

lemma log_appended_log: "log_appended w0 w1 \<Longrightarrow> log_appended w0 (snd (log_message m w1))"
  by (rule log_appended_trans) (auto simp: log_message_def log_appended_def log_text_def Let_def)

lemma probe_rel_refl [simp]: "probe_rel w w"
  by (simp add: probe_rel_def)

lemma same_but_log_log: "same_but_log w0 w1 \<Longrightarrow> same_but_log w0 (snd (log_message m w1))"
  by (simp add: same_but_log_iff)

lemma same_but_log_run: "same_but_log w0 w1 \<Longrightarrow> same_but_log w0 (snd (subprocess_run argv w1))"
  by (simp add: same_but_log_iff)

lemma log_appended_run: "log_appended w0 w1 \<Longrightarrow> log_appended w0 (snd (subprocess_run argv w1))"
  by (simp add: log_appended_def)

lemma probe_rel_log: "probe_rel w0 w1 \<Longrightarrow> probe_rel w0 (snd (log_message m w1))"
  by (simp add: probe_rel_def same_but_log_log log_appended_log)

lemma probe_rel_run: "probe_rel w0 w1 \<Longrightarrow> probe_rel w0 (snd (subprocess_run argv w1))"
  by (simp add: probe_rel_def same_but_log_run log_appended_run)

lemma probe_rel_get_environment:
  assumes "probe_rel w0 w1"
  shows "probe_rel w0 (snd (get_environment w1))"
proof -
  note at = and_then_rel [where R = probe_rel and ?w0.0 = w0]
  show ?thesis
  proof (cases "path_exists (fs w1) (stack_dir w1 @ [''env.sh''])")
    case False
    have "probe_rel w0 (snd (and_then (log_message ''env.sh not found, using fallback environment'')
                (\<lambda>_ w2. (Inr (get_fallback_environment w2), w2)) w1))"
      by (rule at) (simp_all add: probe_rel_log assms)
    with False show ?thesis by (simp add: get_environment_def)
  next
    case True
    have run: "probe_rel w0 (snd (subprocess_run (bash_env_argv w1) w1))"
      using assms by (rule probe_rel_run)
    show ?thesis
    proof (cases "subprocess_run (bash_env_argv w1) w1")
      case (Pair r w2)
      with run have w2: "probe_rel w0 w2" by simp
      show ?thesis
      proof (cases r)
        case (Inl e)
        with True Pair w2 show ?thesis by (simp add: get_environment_def)
      next
        case (Inr res)
        obtain rc out err where res: "res = (rc, out, err)" by (cases res)
        have "probe_rel w0 (snd (and_then (log_message m) kk w2))"
          if "\<And>x w3. snd (kk x w3) = w3" for m and kk :: "unit \<Rightarrow> (string \<rightharpoonup> string) action"
          by (rule at) (simp_all add: probe_rel_log w2 that)
        with True Pair Inr res show ?thesis by (simp add: get_environment_def)
      qed
    qed
  qed
qed












lemmas action_eval = and_then_def try_except_def on_fs_def log_message_def message_box_def
  single_shot_def subprocess_run_def popen_def os_kill_def Let_def log_entry_def






section \<open>Process controller: properties\<close>

lemmas path_defs = stack_dir_def deps_dir_def mysql_dir_def mysql_cnf_def php_dir_def
  current_link_def mysql_admin_def mysql_socket_def mysql_pid_file_def nginx_pid_file_def
  php_pid_file_def nginx_conf_def bash_env_argv_def admin_argv_def

lemma log_message_text:
  "is_dir (fs w) (stack_dir w) \<Longrightarrow>
   log_message m w = (Inr (), w\<lparr>applog := Some (log_text w @ log_entry (now w) m)\<rparr>)"
  by (simp add: log_message_def log_text_def)

lemma get_environment_available:
  assumes "environment_available w"
  shows "\<exists>env. get_environment w =
           (Inr env, w\<lparr>applog := Some (log_text w @ log_entry (now w) (environment_message w)),
                        commands := commands w @ (if path_exists (fs w) (stack_dir w @ [''env.sh''])
                                                  then [bash_env_argv w] else [])\<rparr>)"
proof (cases "path_exists (fs w) (stack_dir w @ [''env.sh''])")
  case False
  with assms show ?thesis
    by (simp add: get_environment_def environment_available_def environment_message_def
        and_then_def log_message_text)
next
  case True
  with assms obtain rc out err where c: "run_oracle w (bash_env_argv w) = Completed rc out err"
    by (cases "run_oracle w (bash_env_argv w)") (auto simp: environment_available_def)
  from assms have d: "is_dir (fs w) (stack_dir w)" by (simp add: environment_available_def)
  have l: "log_message m (w\<lparr>commands := cs\<rparr>)
             = (Inr (), w\<lparr>commands := cs, applog := Some (log_text w @ log_entry (now w) m)\<rparr>)" for m cs
    using d by (simp add: log_message_def log_text_def stack_dir_def)
  from True c show ?thesis
    by (cases "rc = 0")
       (simp_all add: get_environment_def environment_message_def and_then_def subprocess_run_def l)
qed


lemma stop_service_no_admin:
  assumes a: "environment_available w" and s: "\<not> path_exists (fs w) (mysql_admin w)"
  shows "fst (stop_service ''mysql'' w) = Inr ()
       \<and> log_text (snd (stop_service ''mysql'' w))
           = log_text w @ log_entry (now w) (environment_message w)
               @ log_entry (now w) ''MySQL admin not found, cannot stop gracefully''
               @ log_entry (now w) ''Stopped mysql service''"
proof -
  from get_environment_available [OF a] obtain env where
    g: "get_environment w =
           (Inr env, w\<lparr>applog := Some (log_text w @ log_entry (now w) (environment_message w)),
                        commands := commands w @ (if path_exists (fs w) (stack_dir w @ [''env.sh''])
                                                  then [bash_env_argv w] else [])\<rparr>)"
    by blast
  from a have d: "is_dir (fs w) (home w @ [''webstack''])"
    by (simp add: environment_available_def stack_dir_def)
  from s d show ?thesis
    by (auto simp: stop_service_def try_except_def and_then_def g
        log_message_def log_text_def Let_def path_defs)
qed




lemma and_then_log_commands:
  assumes "\<And>x w3. snd (k x w3) = w3"
  shows "commands (snd (and_then (log_message m) k w1)) = commands w1"
  by (rule and_then_rel [where R = "\<lambda>w0 w2. commands w2 = commands w0" and ?w0.0 = w1])
     (simp_all add: assms)

lemma get_environment_commands:
  "commands (snd (get_environment w)) = commands w
   \<or> commands (snd (get_environment w)) = commands w @ [bash_env_argv w]"
proof (cases "path_exists (fs w) (stack_dir w @ [''env.sh''])")
  case False
  then show ?thesis by (simp add: get_environment_def and_then_log_commands)
next
  case True
  have c: "commands (snd (subprocess_run (bash_env_argv w) w)) = commands w @ [bash_env_argv w]"
    by (simp add: subprocess_run_def split: proc_outcome.splits)
  show ?thesis
  proof (cases "subprocess_run (bash_env_argv w) w")
    case (Pair r w2)
    with c have w2: "commands w2 = commands w @ [bash_env_argv w]" by simp
    show ?thesis
    proof (cases r)
      case (Inl e)
      with True Pair w2 show ?thesis by (simp add: get_environment_def)
    next
      case (Inr res)
      obtain rc out err where res: "res = (rc, out, err)" by (cases res)
      from True Pair Inr res w2 show ?thesis
        by (simp add: get_environment_def and_then_log_commands)
    qed
  qed
qed

text \<open>
  Claim C10.  When the administrative client does not exist, \<open>stop_service\<close> for the
  database makes no call of \<open>os.kill\<close>, whatever the PID file holds: signals, launched
  processes, files and timers are as before, and the only command run is the shell of the
  environment resolver.  With the stack root in place and the shell available it returns
  normally, having written to the log only: the resolver's line,
  \<open>MySQL admin not found, cannot stop gracefully\<close> and \<open>Stopped mysql service\<close>.
\<close>

theorem stop_mysql_without_admin_client:
  assumes "\<not> path_exists (fs w) (mysql_admin w)"
  shows "signals (snd (stop_service ''mysql'' w)) = signals w
       \<and> spawned (snd (stop_service ''mysql'' w)) = spawned w
       \<and> fs (snd (stop_service ''mysql'' w)) = fs w
       \<and> timers (snd (stop_service ''mysql'' w)) = timers w
       \<and> (\<forall>argv \<in> set (commands (snd (stop_service ''mysql'' w))).
             argv \<in> set (commands w) \<or> argv = bash_env_argv w)
       \<and> (environment_available w \<longrightarrow>
             fst (stop_service ''mysql'' w) = Inr ()
             \<and> log_text (snd (stop_service ''mysql'' w))
                 = log_text w @ log_entry (now w) (environment_message w)
                     @ log_entry (now w) ''MySQL admin not found, cannot stop gracefully''
                     @ log_entry (now w) ''Stopped mysql service'')"
proof -
  define R where "R = (\<lambda>(w0::world) (w1::world).
      home w1 = home w0 \<and> fs w1 = fs w0 \<and> signals w1 = signals w0 \<and> spawned w1 = spawned w0
      \<and> timers w1 = timers w0
      \<and> (\<forall>argv \<in> set (commands w1). argv \<in> set (commands w0) \<or> argv = bash_env_argv w0))"
  note at = and_then_rel [where R = R and ?w0.0 = w]
  have rr: "R w w" by (simp add: R_def)
  have lg: "R w (snd (log_message m w1))" if "R w w1" for m w1
    using that by (simp add: R_def)
  have mb: "R w (snd (message_box k t m w1))" if "R w w1" for k t m w1
    using that by (simp add: R_def)
  have ge: "R w (snd (get_environment w))"
    using probe_rel_get_environment [of w w] get_environment_commands [of w]
    by (auto simp: R_def probe_rel_def same_but_log_iff)
  have "R w (snd (stop_service ''mysql'' w))"
    unfolding stop_service_def
    apply (rule try_except_rel [where R = R])
     apply (rule at)
      apply (rule ge)
     apply (rule at)
      apply (subgoal_tac "\<not> path_exists (fs w1) (mysql_admin w1)")
       apply (simp add: lg)
      apply (insert assms)[1]
      apply (simp add: R_def path_defs)
     apply (erule lg)
    apply (rule at)
     apply (erule lg)
    apply (erule mb)
    done
  then show ?thesis
    using stop_service_no_admin [OF _ assms] by (simp add: R_def)
qed

lemma no_admin_world_facts:
  "\<not> path_exists (fs no_admin_world) (mysql_admin no_admin_world)"
  "read_text (fs no_admin_world) (mysql_pid_file no_admin_world) = Inr ''4242''"
  "py_int (py_strip ''4242'') = Some 4242"
  "environment_available no_admin_world"
  by (simp_all add: no_admin_world_def path_defs read_text_def environment_available_def
      py_int_def py_strip_def py_isspace_def re_digit_def digits_value_def demo_eval)

theorem stop_mysql_without_admin_client_witness:
  "\<not> path_exists (fs no_admin_world) (mysql_admin no_admin_world)
   \<and> read_text (fs no_admin_world) (mysql_pid_file no_admin_world) = Inr ''4242''
   \<and> py_int (py_strip ''4242'') = Some 4242
   \<and> environment_available no_admin_world
   \<and> signals (snd (stop_service ''mysql'' no_admin_world)) = []
   \<and> fst (stop_service ''mysql'' no_admin_world) = Inr ()
   \<and> log_text (snd (stop_service ''mysql'' no_admin_world))
        = log_entry ''2024-05-01 12:00:00'' ''env.sh not found, using fallback environment''
          @ log_entry ''2024-05-01 12:00:00'' ''MySQL admin not found, cannot stop gracefully''
          @ log_entry ''2024-05-01 12:00:00'' ''Stopped mysql service''"
proof -
  have e: "signals no_admin_world = []" "log_text no_admin_world = []"
    "now no_admin_world = ''2024-05-01 12:00:00''"
    "environment_message no_admin_world = ''env.sh not found, using fallback environment''"
    by (simp_all add: no_admin_world_def log_text_def environment_message_def demo_eval)
  from stop_mysql_without_admin_client [OF no_admin_world_facts(1)] no_admin_world_facts e
  show ?thesis by simp
qed

text \<open>
  Claim C1 against the code.  \<open>switch_php_version\<close> never looks for the version's
  executable.  In \<open>switch_world\<close> the directory \<open>php/8.2\<close> exists without \<open>bin/php\<close> and
  \<open>current\<close> points at \<open>php/8.3\<close>; switching to \<open>8.2\<close> returns normally, shows no dialog,
  replaces the link by one to \<open>php/8.2\<close>, schedules the restart and logs the switch.
\<close>

theorem switch_php_version_without_binary:
  "\<not> path_exists (fs switch_world) (php_dir switch_world @ [''8.2'', ''bin'', ''php''])
   \<and> canonical (fs switch_world) (current_link switch_world)
       = Some [''home'', ''dev'', ''webstack'', ''php'', ''8.3'']
   \<and> fst (switch_php_version ''8.2'' switch_world) = Inr ()
   \<and> dialogs (snd (switch_php_version ''8.2'' switch_world)) = []
   \<and> fs (snd (switch_php_version ''8.2'' switch_world)) \<noteq> fs switch_world
   \<and> canonical (fs (snd (switch_php_version ''8.2'' switch_world))) (current_link switch_world)
       = Some [''home'', ''dev'', ''webstack'', ''php'', ''8.2'']
   \<and> timers (snd (switch_php_version ''8.2'' switch_world)) = [(1000, StartService ''php'')]
   \<and> applog (snd (switch_php_version ''8.2'' switch_world))
       = Some (''[2024-05-01 12:00:00] env.sh not found, using fallback environment'' @ [CHR 0x0A]
               @ ''[2024-05-01 12:00:00] Stopped php service'' @ [CHR 0x0A]
               @ ''[2024-05-01 12:00:00] Switched to PHP 8.2'' @ [CHR 0x0A])"
  by (simp add: switch_php_version_def stop_service_def get_environment_def signal_pid_file_def
      switch_world_def unlink_def symlink_to_def AList.delete_eq path_defs action_eval demo_eval)





section \<open>Starting the services in order\<close>

lemma and_then_Inr: "a w = (Inr x, w1) \<Longrightarrow> and_then a k w = k x w1"
  by (simp add: and_then_def)















end
